theory Spec2Isabelle
  imports Complex_Main "HOL-Library.AList" "HOL-Library.Char_ord" "HOL-Library.List_Lexorder"
begin

section \<open>Python values, exceptions and dictionaries\<close>

text \<open>
  The handlers of \<^verbatim>\<open>main.py\<close> receive parsed JSON and pass it on untyped, so the
  embedding keeps one type of Python values. A float is held by its exact rational value
  (finite floats only), a \<^verbatim>\<open>datetime.date\<close> by its three fields. A dictionary is an
  association list read with \<open>map_of\<close> and written with \<open>AList.update\<close>.
\<close>

datatype date = Date (year: nat) (month: nat) (day: nat)

datatype pyval =
    PNone
  | PBool bool
  | PInt int
  | PFloat rat
  | PStr string
  | PDate date
  | PList "pyval list"
  | PDict "(string \<times> pyval) list"

type_synonym dict = "(string \<times> pyval) list"

text \<open>
  Exceptions a handler can meet. The last four are the classes of \<^verbatim>\<open>psycopg2.Error\<close>
  raised by the store; the first two are raised by Python itself.
\<close>

datatype pyexn =
    TypeError
  | AttributeError
  | OperationalError
  | IntegrityError
  | DataError
  | ProgrammingError


text \<open>\<^verbatim>\<open>d.get(k)\<close> (None when absent), \<^verbatim>\<open>d.get(k, default)\<close> and \<^verbatim>\<open>k in d\<close>.\<close>

definition dict_get :: "dict \<Rightarrow> string \<Rightarrow> pyval" where
  "dict_get d k = (case map_of d k of None \<Rightarrow> PNone | Some v \<Rightarrow> v)"

definition dict_get_default :: "dict \<Rightarrow> string \<Rightarrow> pyval \<Rightarrow> pyval" where
  "dict_get_default d k dflt = (case map_of d k of None \<Rightarrow> dflt | Some v \<Rightarrow> v)"

definition dict_has :: "dict \<Rightarrow> string \<Rightarrow> bool" where
  "dict_has d k = (map_of d k \<noteq> None)"

definition dict_set :: "dict \<Rightarrow> string \<Rightarrow> pyval \<Rightarrow> dict" where
  "dict_set d k v = AList.update k v d"

text \<open>Truth value of a Python object, as \<^verbatim>\<open>if x:\<close> and \<^verbatim>\<open>not x\<close> take it.\<close>

fun truthy :: "pyval \<Rightarrow> bool" where
  "truthy PNone = False"
| "truthy (PBool b) = b"
| "truthy (PInt n) = (n \<noteq> 0)"
| "truthy (PFloat r) = (r \<noteq> 0)"
| "truthy (PStr s) = (s \<noteq> [])"
| "truthy (PDate d) = True"
| "truthy (PList xs) = (xs \<noteq> [])"
| "truthy (PDict kvs) = (kvs \<noteq> [])"

section \<open>Strings: Python strip, SQL TRIM and LOWER\<close>

text \<open>
  A string is a list of code points below 256. \<^verbatim>\<open>str.strip()\<close> removes the characters
  for which \<^verbatim>\<open>str.isspace\<close> holds; SQL \<^verbatim>\<open>TRIM\<close> removes spaces only; \<^verbatim>\<open>LOWER\<close> is
  taken on the ASCII letters.
\<close>

definition py_isspace :: "char \<Rightarrow> bool" where
  "py_isspace c = ((of_char c :: nat) \<in> {9, 10, 11, 12, 13, 28, 29, 30, 31, 32, 133, 160})"

definition strip_with :: "(char \<Rightarrow> bool) \<Rightarrow> string \<Rightarrow> string" where
  "strip_with P s = rev (dropWhile P (rev (dropWhile P s)))"

definition py_strip :: "string \<Rightarrow> string" where
  "py_strip s = strip_with py_isspace s"

definition sql_trim :: "string \<Rightarrow> string" where
  "sql_trim s = strip_with (\<lambda>c. c = CHR '' '') s"

definition lower_char :: "char \<Rightarrow> char" where
  "lower_char c =
     (if 65 \<le> (of_char c :: nat) \<and> (of_char c :: nat) \<le> 90
      then char_of ((of_char c :: nat) + 32) else c)"

definition sql_lower :: "string \<Rightarrow> string" where
  "sql_lower s = map lower_char s"

text \<open>\<^verbatim>\<open>x.strip()\<close> on any value: only a string has the method.\<close>

fun str_strip :: "pyval \<Rightarrow> pyexn + string" where
  "str_strip (PStr s) = Inr (py_strip s)"
| "str_strip v = Inl AttributeError"

text \<open>The expression of the unique indexes and of the lookups: \<^verbatim>\<open>TRIM(LOWER(x))\<close>.\<close>

definition sql_key :: "string \<Rightarrow> string" where
  "sql_key s = sql_trim (sql_lower s)"

section \<open>Dates\<close>

definition is_leap :: "nat \<Rightarrow> bool" where
  "is_leap y = (y mod 4 = 0 \<and> (y mod 100 \<noteq> 0 \<or> y mod 400 = 0))"

definition days_in_month :: "nat \<Rightarrow> nat \<Rightarrow> nat" where
  "days_in_month y m =
     (if m = 2 then (if is_leap y then 29 else 28)
      else if m = 4 \<or> m = 6 \<or> m = 9 \<or> m = 11 then 30 else 31)"

text \<open>The values a \<^verbatim>\<open>datetime.date\<close> can hold.\<close>

definition valid_date :: "date \<Rightarrow> bool" where
  "valid_date d =
     (1 \<le> year d \<and> year d \<le> 9999 \<and> 1 \<le> month d \<and> month d \<le> 12
      \<and> 1 \<le> day d \<and> day d \<le> days_in_month (year d) (month d))"

definition is_digit :: "char \<Rightarrow> bool" where
  "is_digit c = (48 \<le> (of_char c :: nat) \<and> (of_char c :: nat) \<le> 57)"

definition digit_val :: "char \<Rightarrow> nat" where
  "digit_val c = (of_char c :: nat) - 48"

definition digit_char :: "nat \<Rightarrow> char" where
  "digit_char n = char_of (48 + n)"

fun digits_val :: "string \<Rightarrow> nat \<Rightarrow> nat" where
  "digits_val [] acc = acc"
| "digits_val (c # cs) acc = digits_val cs (10 * acc + digit_val c)"

text \<open>The shape \<^verbatim>\<open>YYYY-MM-DD\<close>: ten characters, dashes at 4 and 7, digits elsewhere.\<close>

definition is_iso_date :: "string \<Rightarrow> bool" where
  "is_iso_date s =
     (length s = 10 \<and> s ! 4 = CHR ''-'' \<and> s ! 7 = CHR ''-''
      \<and> list_all is_digit (take 4 s) \<and> list_all is_digit (take 2 (drop 5 s))
      \<and> list_all is_digit (drop 8 s))"

text \<open>
  \<^verbatim>\<open>date.fromisoformat(s)\<close> on a string, in the format the handlers announce
  (\<^verbatim>\<open>YYYY-MM-DD\<close>); \<open>None\<close> is the \<^verbatim>\<open>ValueError\<close>.
\<close>

definition date_fromisoformat :: "string \<Rightarrow> date option" where
  "date_fromisoformat s =
     (if is_iso_date s then
        (let d = Date (digits_val (take 4 s) 0) (digits_val (take 2 (drop 5 s)) 0)
                      (digits_val (drop 8 s) 0)
         in if valid_date d then Some d else None)
      else None)"

definition pad2 :: "nat \<Rightarrow> string" where
  "pad2 n = [digit_char (n div 10 mod 10), digit_char (n mod 10)]"

definition pad4 :: "nat \<Rightarrow> string" where
  "pad4 n = [digit_char (n div 1000 mod 10), digit_char (n div 100 mod 10),
             digit_char (n div 10 mod 10), digit_char (n mod 10)]"

text \<open>\<^verbatim>\<open>d.isoformat()\<close>.\<close>

definition date_isoformat :: "date \<Rightarrow> string" where
  "date_isoformat d = pad4 (year d) @ ''-'' @ pad2 (month d) @ ''-'' @ pad2 (day d)"

section \<open>The store\<close>

text \<open>
  \<^verbatim>\<open>COFFEE_LOT_COLUMNS\<close>, and the column types of the \<^verbatim>\<open>CREATE TABLE coffee_lots\<close>
  statement. A row of \<^verbatim>\<open>coffee_lots\<close> is the dictionary a \<^verbatim>\<open>RealDictCursor\<close> returns
  for it: one entry per column, in this order.
\<close>

definition COFFEE_LOT_COLUMNS :: "string list" where
  "COFFEE_LOT_COLUMNS =
     [''id'', ''lote_numero'', ''balanca'', ''caminhoneiro'', ''data_entrada'',
      ''qtd_lotes_veiculo'', ''boca_entrada'', ''situacao_cafe_veiculo'', ''safra'',
      ''nome_produtor'', ''nome_propriedade'', ''endereco'', ''telefone'',
      ''tipo_servico'', ''qtd_sacas'', ''peso_total_sacas_kg'', ''peso_total_bag_kg'',
      ''qtd_bags'', ''divisao_bags_kg'', ''peso_entrada_caminhao_kg'', ''fair_trade'',
      ''empresa'', ''status'']"

datatype coltype = Varchar nat | Integer | DoublePrecision | DateCol

definition column_type :: "string \<Rightarrow> coltype" where
  "column_type c =
     (if c = ''data_entrada'' then DateCol
      else if c \<in> set [''qtd_lotes_veiculo'', ''boca_entrada'', ''qtd_sacas'', ''qtd_bags'']
        then Integer
      else if c \<in> set [''peso_total_sacas_kg'', ''peso_total_bag_kg'', ''divisao_bags_kg'',
                        ''peso_entrada_caminhao_kg'']
        then DoublePrecision
      else if c = ''status'' then Varchar 50
      else Varchar 255)"

text \<open>
  What a column takes from a statement parameter. A value of the column's own type (or NULL)
  is stored as it is; any other value is refused with a \<open>DataError\<close>: the implicit
  conversions of the engine between types are not part of this model.
\<close>

fun column_accepts :: "coltype \<Rightarrow> pyval \<Rightarrow> bool" where
  "column_accepts t PNone = True"
| "column_accepts (Varchar n) (PStr s) = (length s \<le> n)"
| "column_accepts Integer (PInt i) = (- 2147483648 \<le> i \<and> i \<le> 2147483647)"
| "column_accepts DoublePrecision (PFloat r) = True"
| "column_accepts DoublePrecision (PInt i) = True"
| "column_accepts DateCol (PDate d) = valid_date d"
| "column_accepts t v = False"

record producer =
  p_id :: string
  p_name :: string
  p_property :: "string option"

record driver =
  d_id :: string
  d_name :: string

text \<open>
  The state a request runs in: the three tables, the outcome of the coming calls of
  \<^verbatim>\<open>get_db_connection()\<close> (\<open>True\<close>: the call raises; past the end of the list every call
  succeeds), and the source of the UUIDs that \<^verbatim>\<open>uuid.uuid4()\<close> and
  \<^verbatim>\<open>uuid_generate_v4()\<close> hand out.
\<close>

record world =
  coffee_lots :: "dict list"
  producers :: "producer list"
  drivers :: "driver list"
  conn_faults :: "bool list"
  uuid_src :: "nat \<Rightarrow> string"
  uuid_used :: nat

definition empty_world :: world where
  "empty_world = \<lparr>coffee_lots = [], producers = [], drivers = [], conn_faults = [],
                   uuid_src = (\<lambda>n. ''u'' @ replicate n CHR ''x''), uuid_used = 0\<rparr>"

definition get_db_connection :: "world \<Rightarrow> world \<times> (pyexn + unit)" where
  "get_db_connection w =
     (case conn_faults w of
        [] \<Rightarrow> (w, Inr ())
      | f # fs \<Rightarrow> (w\<lparr>conn_faults := fs\<rparr>, if f then Inl OperationalError else Inr ()))"

definition conn_ok :: "world \<Rightarrow> bool" where
  "conn_ok w = (case conn_faults w of [] \<Rightarrow> True | f # fs \<Rightarrow> \<not> f)"

definition new_uuid :: "world \<Rightarrow> string \<times> world" where
  "new_uuid w = (uuid_src w (uuid_used w), w\<lparr>uuid_used := Suc (uuid_used w)\<rparr>)"

section \<open>Responses\<close>

text \<open>
  The message texts of the source are constants; each is a constructor here.
  \<open>ServerError h\<close> is the fixed text of handler \<open>h\<close>'s \<^verbatim>\<open>except Exception\<close> branch
  (\<^verbatim>\<open>"Erro interno do servidor ao ..."\<close>), \<open>BocaRange\<close> is
  \<^verbatim>\<open>"... deve ser entre 1 e 8."\<close>, \<open>BocaTaken b\<close> is
  \<^verbatim>\<open>"... {boca_num} ja esta em uso por um lote ativo."\<close>, \<open>BocaInternal\<close> is
  \<^verbatim>\<open>"Erro interno ao validar boca de entrada."\<close>, \<open>ImportDone a e\<close> is the import summary
  with its two counts.
\<close>

datatype handler =
    GetLots | GetLot | AddLot | UpdateLot | DeleteLot
  | GetProducers | AddProducer | DeleteProducer | ImportProducers
  | GetDrivers | AddDriver | DeleteDriver

datatype msg =
    NoMessage
  | BocaRange
  | BocaTaken pyval
  | BocaInternal
  | BadDateFormat
  | NoDataProvided
  | LotNotFound
  | LotRemoved
  | EmptyName
  | NameRequired
  | AlreadyExists
  | EntryNotFound
  | EntryRemoved
  | NotAList
  | ImportDone nat nat
  | ServerError handler

datatype body = Msg msg | Json pyval

type_synonym response = "nat \<times> body"

section \<open>Bay validator\<close>

record validation =
  isValid :: bool
  message :: msg

text \<open>\<^verbatim>\<open>1 <= boca_num <= 8\<close>: a bool counts as 0 or 1, other non-numbers raise.\<close>

fun between_1_and_8 :: "pyval \<Rightarrow> pyexn + bool" where
  "between_1_and_8 (PBool b) = Inr b"
| "between_1_and_8 (PInt n) = Inr (1 \<le> n \<and> n \<le> 8)"
| "between_1_and_8 (PFloat r) = Inr (1 \<le> r \<and> r \<le> 8)"
| "between_1_and_8 v = Inl TypeError"

text \<open>
  \<^verbatim>\<open>boca_entrada = %s\<close> on the INTEGER column: an integer or a float parameter is compared
  by value, a boolean parameter has no such operator.
\<close>

fun sql_integer_param :: "pyval \<Rightarrow> bool" where
  "sql_integer_param (PInt n) = True"
| "sql_integer_param (PFloat r) = True"
| "sql_integer_param v = False"

fun sql_integer_eq :: "pyval \<Rightarrow> pyval \<Rightarrow> bool" where
  "sql_integer_eq (PInt c) (PInt n) = (c = n)"
| "sql_integer_eq (PInt c) (PFloat r) = (of_int c = r)"
| "sql_integer_eq c v = False"

fun sql_str_ne :: "pyval \<Rightarrow> string \<Rightarrow> bool" where
  "sql_str_ne (PStr s) x = (s \<noteq> x)"
| "sql_str_ne c x = False"

text \<open>
  The query of the validator, with \<^verbatim>\<open>AND id != %s\<close> added when \<^verbatim>\<open>current_lot_id\<close> is
  truthy.
\<close>

definition select_active_boca :: "dict list \<Rightarrow> pyval \<Rightarrow> string option \<Rightarrow> pyexn + dict list" where
  "select_active_boca lots boca_num current_lot_id =
     (if \<not> sql_integer_param boca_num then Inl ProgrammingError
      else Inr (filter (\<lambda>l. dict_get l ''status'' = PStr ''active''
                          \<and> sql_integer_eq (dict_get l ''boca_entrada'') boca_num
                          \<and> (case current_lot_id of
                                None \<Rightarrow> True
                              | Some i \<Rightarrow> (if i = [] then True else sql_str_ne (dict_get l ''id'') i)))
                  lots))"

definition validate_boca_entrada ::
  "world \<Rightarrow> pyval \<Rightarrow> string option \<Rightarrow> world \<times> (pyexn + validation)" where
  "validate_boca_entrada w boca_num current_lot_id =
     (if boca_num = PNone then (w, Inr \<lparr>isValid = False, message = BocaRange\<rparr>)
      else case between_1_and_8 boca_num of
        Inl e \<Rightarrow> (w, Inl e)
      | Inr False \<Rightarrow> (w, Inr \<lparr>isValid = False, message = BocaRange\<rparr>)
      | Inr True \<Rightarrow>
          (case get_db_connection w of
             (w1, Inl e) \<Rightarrow> (w1, Inr \<lparr>isValid = False, message = BocaInternal\<rparr>)
           | (w1, Inr u) \<Rightarrow>
               (case select_active_boca (coffee_lots w1) boca_num current_lot_id of
                  Inl e \<Rightarrow> (w1, Inr \<lparr>isValid = False, message = BocaInternal\<rparr>)
                | Inr rows \<Rightarrow>
                    (if rows \<noteq> [] then (w1, Inr \<lparr>isValid = False, message = BocaTaken boca_num\<rparr>)
                     else (w1, Inr \<lparr>isValid = True, message = NoMessage\<rparr>)))))"

text \<open>
  The occupancy the specification speaks of: some lot with status \<^verbatim>\<open>active\<close> holds bay \<open>n\<close>
  and its id differs from the excluded one.
\<close>

definition bay_occupied :: "dict list \<Rightarrow> int \<Rightarrow> string option \<Rightarrow> bool" where
  "bay_occupied lots n ex =
     list_ex (\<lambda>l. dict_get l ''status'' = PStr ''active''
                \<and> dict_get l ''boca_entrada'' = PInt n
                \<and> (case dict_get l ''id'' of PStr i \<Rightarrow> Some i \<noteq> ex | v \<Rightarrow> False)) lots"

section \<open>Registry: upsert if absent\<close>

text \<open>
  The key of a registry row under the unique index
  \<^verbatim>\<open>(TRIM(LOWER(name)), TRIM(LOWER(property_name)))\<close>. A row whose property is NULL has
  no key: NULL takes part in no conflict and in no equality.
\<close>

definition producer_key :: "producer \<Rightarrow> (string \<times> string) option" where
  "producer_key r =
     (case p_property r of None \<Rightarrow> None | Some q \<Rightarrow> Some (sql_key (p_name r), sql_key q))"

definition producer_exists :: "producer list \<Rightarrow> string \<Rightarrow> string \<Rightarrow> bool" where
  "producer_exists rows name prop =
     list_ex (\<lambda>r. producer_key r = Some (sql_key name, sql_key prop)) rows"

definition driver_exists :: "driver list \<Rightarrow> string \<Rightarrow> bool" where
  "driver_exists rows name = list_ex (\<lambda>r. sql_key (d_name r) = sql_key name) rows"

text \<open>
  \<^verbatim>\<open>INSERT INTO producers (name, property_name) VALUES (%s, %s)\<close>, with
  \<^verbatim>\<open>ON CONFLICT (...) DO NOTHING\<close> when \<open>on_conflict\<close> is set. The columns are
  \<^verbatim>\<open>VARCHAR(255)\<close>; the id is generated by the store. The result is the row count and the id.
\<close>

definition insert_producer ::
  "bool \<Rightarrow> world \<Rightarrow> string \<Rightarrow> string \<Rightarrow> world \<times> (pyexn + (nat \<times> string))" where
  "insert_producer on_conflict w name prop =
     (if 255 < length name \<or> 255 < length prop then (w, Inl DataError)
      else if producer_exists (producers w) name prop
        then (if on_conflict then (w, Inr (0, [])) else (w, Inl IntegrityError))
      else (case new_uuid w of
              (u, w1) \<Rightarrow>
                (w1\<lparr>producers := producers w1 @ [\<lparr>p_id = u, p_name = name, p_property = Some prop\<rparr>]\<rparr>,
                 Inr (1, u))))"

definition insert_driver ::
  "bool \<Rightarrow> world \<Rightarrow> string \<Rightarrow> world \<times> (pyexn + (nat \<times> string))" where
  "insert_driver on_conflict w name =
     (if 255 < length name then (w, Inl DataError)
      else if driver_exists (drivers w) name
        then (if on_conflict then (w, Inr (0, [])) else (w, Inl IntegrityError))
      else (case new_uuid w of
              (u, w1) \<Rightarrow>
                (w1\<lparr>drivers := drivers w1 @ [\<lparr>d_id = u, d_name = name\<rparr>]\<rparr>, Inr (1, u))))"

text \<open>
  \<^verbatim>\<open>property_name.strip() if property_name is not None else ""\<close>.
\<close>

definition normalize_property :: "pyval \<Rightarrow> pyexn + string" where
  "normalize_property property_name =
     (if property_name = PNone then Inr [] else str_strip property_name)"

text \<open>
  \<^verbatim>\<open>add_producer_if_not_exists\<close>: the two \<^verbatim>\<open>strip\<close> calls stand before the \<^verbatim>\<open>try\<close>, so
  their \<open>AttributeError\<close> leaves the function; every exception of the store is caught and
  printed.
\<close>

definition add_producer_if_not_exists :: "world \<Rightarrow> pyval \<Rightarrow> pyval \<Rightarrow> world \<times> (pyexn + unit)" where
  "add_producer_if_not_exists w producer_name property_name =
     (if \<not> truthy producer_name then (w, Inr ())
      else case str_strip producer_name of
        Inl e \<Rightarrow> (w, Inl e)
      | Inr normalized_producer_name \<Rightarrow>
          (if normalized_producer_name = [] then (w, Inr ())
           else case normalize_property property_name of
             Inl e \<Rightarrow> (w, Inl e)
           | Inr normalized_property_name \<Rightarrow>
               (case get_db_connection w of
                  (w1, Inl e) \<Rightarrow> (w1, Inr ())
                | (w1, Inr u) \<Rightarrow>
                    (case insert_producer True w1 normalized_producer_name normalized_property_name of
                       (w2, Inl e) \<Rightarrow> (w2, Inr ())
                     | (w2, Inr rc) \<Rightarrow> (w2, Inr ())))))"

definition add_driver_if_not_exists :: "world \<Rightarrow> pyval \<Rightarrow> world \<times> (pyexn + unit)" where
  "add_driver_if_not_exists w driver_name =
     (if \<not> truthy driver_name then (w, Inr ())
      else case str_strip driver_name of
        Inl e \<Rightarrow> (w, Inl e)
      | Inr normalized_driver_name \<Rightarrow>
          (if normalized_driver_name = [] then (w, Inr ())
           else case get_db_connection w of
                  (w1, Inl e) \<Rightarrow> (w1, Inr ())
                | (w1, Inr u) \<Rightarrow>
                    (case insert_driver True w1 normalized_driver_name of
                       (w2, Inl e) \<Rightarrow> (w2, Inr ())
                     | (w2, Inr rc) \<Rightarrow> (w2, Inr ()))))"

section \<open>Coffee lots\<close>

definition serialize_coffee_lot :: "dict \<Rightarrow> dict" where
  "serialize_coffee_lot lot =
     (case dict_get lot ''data_entrada'' of
        PDate d \<Rightarrow> dict_set lot ''data_entrada'' (PStr (date_isoformat d))
      | v \<Rightarrow> lot)"


definition get_coffee_lot_by_id :: "world \<Rightarrow> string \<Rightarrow> world \<times> (pyexn + response)" where
  "get_coffee_lot_by_id w lot_id =
     (case get_db_connection w of
        (w1, Inl e) \<Rightarrow> (w1, Inr (500, Msg (ServerError GetLot)))
      | (w1, Inr u) \<Rightarrow>
          (case find (\<lambda>l. dict_get l ''id'' = PStr lot_id) (coffee_lots w1) of
             Some lot \<Rightarrow> (w1, Inr (200, Json (PDict (serialize_coffee_lot lot))))
           | None \<Rightarrow> (w1, Inr (404, Msg LotNotFound))))"

text \<open>
  The shared date step of create and update: a present, truthy \<^verbatim>\<open>data_entrada\<close> is parsed;
  \<open>Inr None\<close> is the \<^verbatim>\<open>ValueError\<close> branch (the 400 answer), \<open>Inl\<close> an exception that
  leaves the handler (\<^verbatim>\<open>fromisoformat\<close> on a value that is no string).
\<close>

definition parse_data_entrada :: "dict \<Rightarrow> pyexn + dict option" where
  "parse_data_entrada d =
     (if dict_has d ''data_entrada'' \<and> truthy (dict_get d ''data_entrada'') then
        (case dict_get d ''data_entrada'' of
           PStr s \<Rightarrow>
             (case date_fromisoformat s of
                None \<Rightarrow> Inr None
              | Some dt \<Rightarrow> Inr (Some (dict_set d ''data_entrada'' (PDate dt))))
         | v \<Rightarrow> Inl TypeError)
      else Inr (Some d))"

text \<open>The registry side effects of create and update, in the order of the source.\<close>

definition upsert_registries :: "world \<Rightarrow> dict \<Rightarrow> world \<times> (pyexn + unit)" where
  "upsert_registries w d =
     (let producer_name = dict_get d ''nome_produtor'';
          property_name = dict_get_default d ''nome_propriedade'' (PStr []);
          r1 = (if truthy producer_name then add_producer_if_not_exists w producer_name property_name
                else (w, Inr ()))
      in case r1 of
           (w1, Inl e) \<Rightarrow> (w1, Inl e)
         | (w1, Inr u) \<Rightarrow>
             (let driver_name = dict_get d ''caminhoneiro''
              in if truthy driver_name then add_driver_if_not_exists w1 driver_name
                 else (w1, Inr ())))"

definition params_accepted :: "(string \<times> pyval) list \<Rightarrow> bool" where
  "params_accepted sets = list_all (\<lambda>(c, v). column_accepts (column_type c) v) sets"

text \<open>
  \<^verbatim>\<open>INSERT INTO coffee_lots (...) VALUES (...)\<close> with the values in column order; the id
  is the primary key.
\<close>

definition insert_coffee_lot :: "dict list \<Rightarrow> pyval list \<Rightarrow> pyexn + dict list" where
  "insert_coffee_lot lots insert_values =
     (let row = zip COFFEE_LOT_COLUMNS insert_values
      in if \<not> params_accepted row then Inl DataError
         else if dict_get row ''id'' = PNone
                 \<or> list_ex (\<lambda>l. dict_get l ''id'' = dict_get row ''id'') lots
           then Inl IntegrityError
         else Inr (lots @ [row]))"

definition add_coffee_lot :: "world \<Rightarrow> dict \<Rightarrow> world \<times> (pyexn + response)" where
  "add_coffee_lot w new_lot_data =
     (case validate_boca_entrada w (dict_get new_lot_data ''boca_entrada'') None of
        (w1, Inl e) \<Rightarrow> (w1, Inl e)
      | (w1, Inr validation_result) \<Rightarrow>
          (if \<not> isValid validation_result then (w1, Inr (400, Msg (message validation_result)))
           else case parse_data_entrada new_lot_data of
             Inl e \<Rightarrow> (w1, Inl e)
           | Inr None \<Rightarrow> (w1, Inr (400, Msg BadDateFormat))
           | Inr (Some d1) \<Rightarrow>
               (case new_uuid w1 of
                  (u, w2) \<Rightarrow>
                    (let d2 = dict_set d1 ''id'' (PStr u);
                         d3 = dict_set d2 ''status'' (dict_get_default d2 ''status'' (PStr ''active''))
                     in case upsert_registries w2 d3 of
                          (w3, Inl e) \<Rightarrow> (w3, Inl e)
                        | (w3, Inr x) \<Rightarrow>
                            (case get_db_connection w3 of
                               (w4, Inl e) \<Rightarrow> (w4, Inr (500, Msg (ServerError AddLot)))
                             | (w4, Inr y) \<Rightarrow>
                                 (case insert_coffee_lot (coffee_lots w4)
                                         (map (dict_get d3) COFFEE_LOT_COLUMNS) of
                                    Inl e \<Rightarrow> (w4, Inr (500, Msg (ServerError AddLot)))
                                  | Inr lots \<Rightarrow>
                                      (w4\<lparr>coffee_lots := lots\<rparr>,
                                       Inr (201, Json (PDict (serialize_coffee_lot d3))))))))))"

text \<open>
  \<^verbatim>\<open>UPDATE coffee_lots SET c1 = %s, ... WHERE id = %s\<close>: the result is the new table and
  the row count. Writing the id column can break the primary key.
\<close>

definition update_coffee_lots ::
  "dict list \<Rightarrow> (string \<times> pyval) list \<Rightarrow> string \<Rightarrow> pyexn + (dict list \<times> nat)" where
  "update_coffee_lots lots sets lot_id =
     (let hit = (\<lambda>l. dict_get l ''id'' = PStr lot_id);
          rowcount = length (filter hit lots)
      in if \<not> params_accepted sets then Inl DataError
         else if 0 < rowcount
                 \<and> (case map_of sets ''id'' of
                       None \<Rightarrow> False
                     | Some v \<Rightarrow> v = PNone \<or> list_ex (\<lambda>l. \<not> hit l \<and> dict_get l ''id'' = v) lots)
           then Inl IntegrityError
         else Inr (map (\<lambda>l. if hit l then foldl (\<lambda>r (c, v). dict_set r c v) l sets else l) lots,
                   rowcount))"

definition update_coffee_lot :: "world \<Rightarrow> string \<Rightarrow> dict \<Rightarrow> world \<times> (pyexn + response)" where
  "update_coffee_lot w lot_id updated_data =
     (case validate_boca_entrada w (dict_get updated_data ''boca_entrada'') (Some lot_id) of
        (w1, Inl e) \<Rightarrow> (w1, Inl e)
      | (w1, Inr validation_result) \<Rightarrow>
          (if \<not> isValid validation_result then (w1, Inr (400, Msg (message validation_result)))
           else case parse_data_entrada updated_data of
             Inl e \<Rightarrow> (w1, Inl e)
           | Inr None \<Rightarrow> (w1, Inr (400, Msg BadDateFormat))
           | Inr (Some d1) \<Rightarrow>
               (case upsert_registries w1 d1 of
                  (w3, Inl e) \<Rightarrow> (w3, Inl e)
                | (w3, Inr x) \<Rightarrow>
                    (case get_db_connection w3 of
                       (w4, Inl e) \<Rightarrow> (w4, Inr (500, Msg (ServerError UpdateLot)))
                     | (w4, Inr y) \<Rightarrow>
                         (let sets = map (\<lambda>c. (c, dict_get d1 c))
                                       (filter (dict_has d1) COFFEE_LOT_COLUMNS)
                          in if sets = [] then (w4, Inr (400, Msg NoDataProvided))
                             else case update_coffee_lots (coffee_lots w4) sets lot_id of
                               Inl e \<Rightarrow> (w4, Inr (500, Msg (ServerError UpdateLot)))
                             | Inr (lots, rowcount) \<Rightarrow>
                                 (if rowcount = 0
                                  then (w4\<lparr>coffee_lots := lots\<rparr>, Inr (404, Msg LotNotFound))
                                  else get_coffee_lot_by_id (w4\<lparr>coffee_lots := lots\<rparr>) lot_id))))))"




section \<open>Registry endpoints\<close>












section \<open>Store invariant and example data\<close>

text \<open>The primary key of \<^verbatim>\<open>coffee_lots\<close>: every row has a string id.\<close>

definition has_id :: "dict \<Rightarrow> bool" where
  "has_id l = (case dict_get l ''id'' of PStr i \<Rightarrow> True | v \<Rightarrow> False)"

text \<open>A store with one active lot \<^verbatim>\<open>L1\<close> in bay 3.\<close>

definition example_lot :: dict where
  "example_lot =
     [(''id'', PStr ''L1''), (''lote_numero'', PStr ''17''), (''balanca'', PNone),
      (''caminhoneiro'', PNone), (''data_entrada'', PDate (Date 2024 3 15)),
      (''qtd_lotes_veiculo'', PNone), (''boca_entrada'', PInt 3),
      (''situacao_cafe_veiculo'', PNone), (''safra'', PNone), (''nome_produtor'', PNone),
      (''nome_propriedade'', PNone), (''endereco'', PNone), (''telefone'', PNone),
      (''tipo_servico'', PNone), (''qtd_sacas'', PInt 40), (''peso_total_sacas_kg'', PNone),
      (''peso_total_bag_kg'', PNone), (''qtd_bags'', PNone), (''divisao_bags_kg'', PNone),
      (''peso_entrada_caminhao_kg'', PNone), (''fair_trade'', PNone), (''empresa'', PNone),
      (''status'', PStr ''active'')]"

definition example_world :: world where
  "example_world = empty_world\<lparr>coffee_lots := [example_lot]\<rparr>"

text \<open>A name that is absent (None), empty or made of whitespace only.\<close>

definition blank_name :: "pyval \<Rightarrow> bool" where
  "blank_name v = (case v of PNone \<Rightarrow> True | PStr s \<Rightarrow> py_strip s = [] | x \<Rightarrow> False)"

text \<open>
  The POST route on the parsed request body: as in the PUT route, \<^verbatim>\<open>new_lot_data.get\<close> is
  the first use of the body and exists on an object only. \<open>add_coffee_lot\<close> is the handler
  on a body that is an object.
\<close>

definition add_coffee_lot_route :: "world \<Rightarrow> pyval \<Rightarrow> world \<times> (pyexn + response)" where
  "add_coffee_lot_route w body =
     (case body of
        PDict new_lot_data \<Rightarrow> add_coffee_lot w new_lot_data
      | v \<Rightarrow> (w, Inl AttributeError))"

text \<open>A create request with a date and a status of its own, and the answer to it.\<close>

definition example_create_body :: pyval where
  "example_create_body =
     PDict [(''boca_entrada'', PInt 4), (''data_entrada'', PStr ''2024-03-15''),
            (''status'', PStr ''waiting'')]"

definition example_create_response :: body where
  "example_create_response =
     Json (PDict [(''boca_entrada'', PInt 4), (''data_entrada'', PStr ''2024-03-15''),
                  (''status'', PStr ''waiting''), (''id'', PStr ''u'')])"















section \<open>Verified properties\<close>

subsection \<open>Bay validator\<close>

lemma has_idE: "has_id l \<Longrightarrow> \<exists>i. dict_get l ''id'' = PStr i"
  by (cases "dict_get l ''id''") (simp_all add: has_id_def)

lemma sql_integer_eq_int: "sql_integer_eq v (PInt n) = (v = PInt n)"
  by (cases v) simp_all

lemma exclusion_eq:
  assumes "ex \<noteq> Some []" and "idv = PStr i"
  shows "(case ex of None \<Rightarrow> True
          | Some j \<Rightarrow> (if j = [] then True else sql_str_ne idv j))
         = (case idv of PStr k \<Rightarrow> Some k \<noteq> ex | v \<Rightarrow> False)"
  using assms by (cases ex) auto

lemma select_active_boca_int:
  assumes "ex \<noteq> Some []" and "list_all has_id lots"
  shows "\<exists>rows. select_active_boca lots (PInt n) ex = Inr rows
           \<and> (rows \<noteq> []) = bay_occupied lots n ex"
proof -
  define P where "P = (\<lambda>l. dict_get l ''status'' = PStr ''active''
         \<and> sql_integer_eq (dict_get l ''boca_entrada'') (PInt n)
         \<and> (case ex of None \<Rightarrow> True
             | Some i \<Rightarrow> (if i = [] then True else sql_str_ne (dict_get l ''id'') i)))"
  define Q where "Q = (\<lambda>l. dict_get l ''status'' = PStr ''active''
         \<and> dict_get l ''boca_entrada'' = PInt n
         \<and> (case dict_get l ''id'' of PStr i \<Rightarrow> Some i \<noteq> ex | v \<Rightarrow> False))"
  have eq: "P l = Q l" if hl: "l \<in> set lots" for l
  proof -
    have "has_id l" using hl assms(2) by (simp add: list_all_iff)
    then obtain i where i: "dict_get l ''id'' = PStr i" using has_idE by blast
    show ?thesis
      unfolding P_def Q_def sql_integer_eq_int exclusion_eq [OF assms(1) i] ..
  qed
  have "(filter P lots \<noteq> []) = list_ex Q lots"
    unfolding filter_empty_conv list_ex_iff using eq by blast
  moreover have "select_active_boca lots (PInt n) ex = Inr (filter P lots)"
    by (simp add: select_active_boca_def P_def)
  moreover have "bay_occupied lots n ex = list_ex Q lots"
    by (simp add: bay_occupied_def Q_def)
  ultimately show ?thesis by simp
qed


lemma example_lot_get:
  "dict_get example_lot ''id'' = PStr ''L1''"
  "dict_get example_lot ''boca_entrada'' = PInt 3"
  "dict_get example_lot ''status'' = PStr ''active''"
  by (simp_all add: example_lot_def dict_get_def)

lemma example_world_simps:
  "coffee_lots example_world = [example_lot]"
  "conn_faults example_world = []"
  by (simp_all add: example_world_def empty_world_def)

text \<open>
  C1, as stated, fails: a bay number that is a string leaves the validator with a
  \<open>TypeError\<close> instead of an invalid result, and the non-integer 2.5 passes the range
  check and is valid on an empty store.
\<close>

theorem validate_boca_entrada_non_integer_counterexample:
  "snd (validate_boca_entrada empty_world (PStr ''3'') None) = Inl TypeError
   \<and> snd (validate_boca_entrada empty_world (PFloat (5 / 2)) None)
       = Inr \<lparr>isValid = True, message = NoMessage\<rparr>"
  by (simp add: validate_boca_entrada_def empty_world_def get_db_connection_def
        select_active_boca_def)

text \<open>
  C1, amended: the validator is invalid with the range message, whatever the store holds, for
  a bay number that is None, False, or a number outside [1,8]. For an integer bay number in
  [1,8], a reachable store and an excluded id that is absent or non-empty, it is invalid
  (naming the bay) exactly when some active lot with that bay number exists whose id differs
  from the excluded id, and valid otherwise.
\<close>

theorem validate_boca_entrada_amended:
  "(boca_num = PNone \<or> boca_num = PBool False
      \<or> (\<exists>k. boca_num = PInt k \<and> (k < 1 \<or> 8 < k))
      \<or> (\<exists>r. boca_num = PFloat r \<and> (r < 1 \<or> 8 < r))
     \<longrightarrow> validate_boca_entrada w boca_num ex = (w, Inr \<lparr>isValid = False, message = BocaRange\<rparr>))
   \<and> (1 \<le> n \<and> n \<le> 8 \<and> conn_ok w \<and> ex \<noteq> Some [] \<and> list_all has_id (coffee_lots w)
     \<longrightarrow> snd (validate_boca_entrada w (PInt n) ex)
         = Inr (if bay_occupied (coffee_lots w) n ex
                then \<lparr>isValid = False, message = BocaTaken (PInt n)\<rparr>
                else \<lparr>isValid = True, message = NoMessage\<rparr>))"
proof (intro conjI impI)
  assume "boca_num = PNone \<or> boca_num = PBool False
      \<or> (\<exists>k. boca_num = PInt k \<and> (k < 1 \<or> 8 < k))
      \<or> (\<exists>r. boca_num = PFloat r \<and> (r < 1 \<or> 8 < r))"
  then show "validate_boca_entrada w boca_num ex
               = (w, Inr \<lparr>isValid = False, message = BocaRange\<rparr>)"
    by (auto simp: validate_boca_entrada_def)
next
  assume h: "1 \<le> n \<and> n \<le> 8 \<and> conn_ok w \<and> ex \<noteq> Some [] \<and> list_all has_id (coffee_lots w)"
  obtain w1 where c: "get_db_connection w = (w1, Inr ())" and l: "coffee_lots w1 = coffee_lots w"
    using h by (auto simp: get_db_connection_def conn_ok_def split: list.splits)
  obtain rows where r: "select_active_boca (coffee_lots w) (PInt n) ex = Inr rows"
      and o: "(rows \<noteq> []) = bay_occupied (coffee_lots w) n ex"
    using select_active_boca_int [of ex "coffee_lots w" n] h by blast
  show "snd (validate_boca_entrada w (PInt n) ex)
         = Inr (if bay_occupied (coffee_lots w) n ex
                then \<lparr>isValid = False, message = BocaTaken (PInt n)\<rparr>
                else \<lparr>isValid = True, message = NoMessage\<rparr>)"
    using h o by (simp add: validate_boca_entrada_def c l r)
qed

theorem validate_boca_entrada_amended_witness:
  "validate_boca_entrada example_world (PInt 9) None
     = (example_world, Inr \<lparr>isValid = False, message = BocaRange\<rparr>)
   \<and> snd (validate_boca_entrada example_world (PInt 3) None)
       = Inr \<lparr>isValid = False, message = BocaTaken (PInt 3)\<rparr>
   \<and> snd (validate_boca_entrada example_world (PInt 3) (Some ''L1''))
       = Inr \<lparr>isValid = True, message = NoMessage\<rparr>"
proof -
  have ex: "conn_ok example_world" "list_all has_id (coffee_lots example_world)"
    by (simp_all add: example_world_simps conn_ok_def has_id_def example_lot_get)
  have o1: "bay_occupied (coffee_lots example_world) 3 None"
    by (simp add: example_world_simps bay_occupied_def example_lot_get)
  have o2: "\<not> bay_occupied (coffee_lots example_world) 3 (Some ''L1'')"
    by (simp add: example_world_simps bay_occupied_def example_lot_get)
  show ?thesis
    using validate_boca_entrada_amended [of "PInt 9" example_world None 3]
      validate_boca_entrada_amended [of PNone example_world "Some ''L1''" 3]
      ex o1 o2
    by simp
qed

subsection \<open>Update handler\<close>


lemma validate_frame:
  assumes "validate_boca_entrada w b ex = (w1, r)"
  shows "coffee_lots w1 = coffee_lots w \<and> producers w1 = producers w \<and> drivers w1 = drivers w
         \<and> uuid_src w1 = uuid_src w \<and> uuid_used w1 = uuid_used w"
  using assms
  by (auto simp: validate_boca_entrada_def get_db_connection_def
           split: if_splits sum.splits bool.splits prod.splits list.splits)



lemma dict_get_set: "dict_get (dict_set d k v) k' = (if k' = k then v else dict_get d k')"
  by (simp add: dict_get_def dict_set_def update_conv')


lemma parse_keeps_other:
  assumes "parse_data_entrada d = Inr (Some d1)" and "k \<noteq> ''data_entrada''"
  shows "dict_get d1 k = dict_get d k"
  using assms
  by (auto simp: parse_data_entrada_def dict_get_set split: if_splits pyval.splits option.splits)

lemma get_not_none_has: "dict_get d k \<noteq> PNone \<Longrightarrow> dict_has d k"
  by (auto simp: dict_get_def dict_has_def split: option.splits)








text \<open>
  C2: the code at a payload that contains only \<^verbatim>\<open>status\<close>. The update is refused with
  400 and the range message of the bay validator, on every store and for every lot id, and
  nothing is written.
\<close>

theorem update_status_only_rejected:
  "update_coffee_lot w lot_id [(''status'', new_status)] = (w, Inr (400, Msg BocaRange))"
  by (simp add: update_coffee_lot_def validate_boca_entrada_def dict_get_def)

subsection \<open>Blank names and the registries\<close>

lemma blank_name_cases:
  "blank_name v \<Longrightarrow> v = PNone \<or> (\<exists>s. v = PStr s \<and> py_strip s = [])"
  by (cases v) (simp_all add: blank_name_def)

lemma add_producer_blank:
  "blank_name name \<Longrightarrow> add_producer_if_not_exists w name prop = (w, Inr ())"
  by (auto dest!: blank_name_cases simp: add_producer_if_not_exists_def)

lemma add_driver_blank:
  "blank_name name \<Longrightarrow> add_driver_if_not_exists w name = (w, Inr ())"
  by (auto dest!: blank_name_cases simp: add_driver_if_not_exists_def)

lemma connection_frame:
  "get_db_connection w = (w1, r) \<Longrightarrow>
     coffee_lots w1 = coffee_lots w \<and> producers w1 = producers w \<and> drivers w1 = drivers w
     \<and> uuid_src w1 = uuid_src w \<and> uuid_used w1 = uuid_used w"
  by (auto simp: get_db_connection_def split: list.splits)

lemma insert_producer_frame:
  "insert_producer oc w n p = (w1, r) \<Longrightarrow>
     coffee_lots w1 = coffee_lots w \<and> drivers w1 = drivers w \<and> conn_faults w1 = conn_faults w"
  by (auto simp: insert_producer_def new_uuid_def split: if_splits)

lemma insert_driver_frame:
  "insert_driver oc w n = (w1, r) \<Longrightarrow>
     coffee_lots w1 = coffee_lots w \<and> producers w1 = producers w \<and> conn_faults w1 = conn_faults w"
  by (auto simp: insert_driver_def new_uuid_def split: if_splits)

lemma add_producer_frame:
  "add_producer_if_not_exists w name prop = (w1, r) \<Longrightarrow>
     coffee_lots w1 = coffee_lots w \<and> drivers w1 = drivers w"
  by (auto simp: add_producer_if_not_exists_def
           split: if_splits sum.splits prod.splits
           dest!: connection_frame insert_producer_frame)

lemma add_driver_frame:
  "add_driver_if_not_exists w name = (w1, r) \<Longrightarrow>
     coffee_lots w1 = coffee_lots w \<and> producers w1 = producers w"
  by (auto simp: add_driver_if_not_exists_def
           split: if_splits sum.splits prod.splits
           dest!: connection_frame insert_driver_frame)

lemma upsert_registries_frame:
  assumes "upsert_registries w d = (w1, r)"
  shows "coffee_lots w1 = coffee_lots w
       \<and> (blank_name (dict_get d ''nome_produtor'') \<longrightarrow> producers w1 = producers w)
       \<and> (blank_name (dict_get d ''caminhoneiro'') \<longrightarrow> drivers w1 = drivers w)"
proof -
  obtain wa ra where a: "(if truthy (dict_get d ''nome_produtor'')
            then add_producer_if_not_exists w (dict_get d ''nome_produtor'')
                   (dict_get_default d ''nome_propriedade'' (PStr []))
            else (w, Inr ())) = (wa, ra)"
    by (cases "if truthy (dict_get d ''nome_produtor'')
            then add_producer_if_not_exists w (dict_get d ''nome_produtor'')
                   (dict_get_default d ''nome_propriedade'' (PStr []))
            else (w, Inr ())")
  have fa: "coffee_lots wa = coffee_lots w \<and> drivers wa = drivers w
            \<and> (blank_name (dict_get d ''nome_produtor'') \<longrightarrow> wa = w)"
    using a add_producer_frame [of w "dict_get d ''nome_produtor''" _ wa ra]
      add_producer_blank [of "dict_get d ''nome_produtor''" w]
    by (auto split: if_splits)
  have u: "upsert_registries w d
             = (case ra of Inl e \<Rightarrow> (wa, Inl e)
                | Inr x \<Rightarrow> (if truthy (dict_get d ''caminhoneiro'')
                            then add_driver_if_not_exists wa (dict_get d ''caminhoneiro'')
                            else (wa, Inr ())))"
    by (simp add: upsert_registries_def Let_def a)
  have fb: "coffee_lots w1 = coffee_lots wa \<and> producers w1 = producers wa
            \<and> (blank_name (dict_get d ''caminhoneiro'') \<longrightarrow> w1 = wa)"
  proof (cases ra)
    case (Inl e)
    then show ?thesis using assms u by simp
  next
    case (Inr x)
    show ?thesis
    proof (cases "truthy (dict_get d ''caminhoneiro'')")
      case True
      then have "add_driver_if_not_exists wa (dict_get d ''caminhoneiro'') = (w1, r)"
        using assms u Inr by simp
      then show ?thesis
        using add_driver_frame [of wa "dict_get d ''caminhoneiro''" w1 r]
          add_driver_blank [of "dict_get d ''caminhoneiro''" wa]
        by simp
    next
      case False
      then show ?thesis using assms u Inr by simp
    qed
  qed
  show ?thesis using fa fb by simp
qed

text \<open>How far a create request gets: it stops before the registry step, or runs it.\<close>

lemma add_coffee_lot_registry_step:
  "(producers (fst (add_coffee_lot w d)) = producers w
      \<and> drivers (fst (add_coffee_lot w d)) = drivers w)
   \<or> (\<exists>w2 d3 w3 x. upsert_registries w2 d3 = (w3, x)
         \<and> producers w2 = producers w \<and> drivers w2 = drivers w
         \<and> dict_get d3 ''nome_produtor'' = dict_get d ''nome_produtor''
         \<and> dict_get d3 ''caminhoneiro'' = dict_get d ''caminhoneiro''
         \<and> producers (fst (add_coffee_lot w d)) = producers w3
         \<and> drivers (fst (add_coffee_lot w d)) = drivers w3)"
proof -
  obtain w1 r where v: "validate_boca_entrada w (dict_get d ''boca_entrada'') None = (w1, r)"
    by (cases "validate_boca_entrada w (dict_get d ''boca_entrada'') None")
  note f1 = validate_frame [OF v]
  show ?thesis
  proof (cases r)
    case (Inl e)
    then show ?thesis using f1 by (simp add: add_coffee_lot_def v)
  next
    case (Inr vr)
    show ?thesis
    proof (cases "isValid vr")
      case False
      then show ?thesis using f1 by (simp add: add_coffee_lot_def v Inr)
    next
      case True
      show ?thesis
      proof (cases "parse_data_entrada d")
        case (Inl e)
        then show ?thesis using f1 True by (simp add: add_coffee_lot_def v Inr)
      next
        case pr: (Inr res)
        show ?thesis
        proof (cases res)
          case None
          then show ?thesis using f1 True by (simp add: add_coffee_lot_def v Inr pr)
        next
          case (Some d1)
          define w2 where "w2 = w1\<lparr>uuid_used := Suc (uuid_used w1)\<rparr>"
          define d2 where "d2 = dict_set d1 ''id'' (PStr (uuid_src w1 (uuid_used w1)))"
          define d3 where "d3 = dict_set d2 ''status'' (dict_get_default d2 ''status'' (PStr ''active''))"
          obtain w3 x where up: "upsert_registries w2 d3 = (w3, x)"
            by (cases "upsert_registries w2 d3")
          have g: "dict_get d3 ''nome_produtor'' = dict_get d ''nome_produtor''"
                  "dict_get d3 ''caminhoneiro'' = dict_get d ''caminhoneiro''"
            using parse_keeps_other [of d d1] pr Some
            by (simp_all add: d3_def d2_def dict_get_set)
          have f2: "producers w2 = producers w \<and> drivers w2 = drivers w"
            using f1 by (simp add: w2_def)
          have res: "producers (fst (add_coffee_lot w d)) = producers w3
                   \<and> drivers (fst (add_coffee_lot w d)) = drivers w3"
            using True up
            by (auto simp: add_coffee_lot_def v Inr pr Some new_uuid_def Let_def
                       w2_def [symmetric] d2_def [symmetric] d3_def [symmetric]
                     split: sum.splits prod.splits dest!: connection_frame)
          show ?thesis using up g f2 res by blast
        qed
      qed
    qed
  qed
qed

lemma get_lot_frame:
  "get_coffee_lot_by_id w i = (w1, r) \<Longrightarrow>
     coffee_lots w1 = coffee_lots w \<and> producers w1 = producers w \<and> drivers w1 = drivers w"
  by (auto simp: get_coffee_lot_by_id_def split: prod.splits sum.splits option.splits
           dest!: connection_frame)

lemma update_coffee_lot_registry_step:
  "(producers (fst (update_coffee_lot w i d)) = producers w
      \<and> drivers (fst (update_coffee_lot w i d)) = drivers w)
   \<or> (\<exists>w2 d3 w3 x. upsert_registries w2 d3 = (w3, x)
         \<and> producers w2 = producers w \<and> drivers w2 = drivers w
         \<and> dict_get d3 ''nome_produtor'' = dict_get d ''nome_produtor''
         \<and> dict_get d3 ''caminhoneiro'' = dict_get d ''caminhoneiro''
         \<and> producers (fst (update_coffee_lot w i d)) = producers w3
         \<and> drivers (fst (update_coffee_lot w i d)) = drivers w3)"
proof -
  obtain w1 r where v: "validate_boca_entrada w (dict_get d ''boca_entrada'') (Some i) = (w1, r)"
    by (cases "validate_boca_entrada w (dict_get d ''boca_entrada'') (Some i)")
  note f1 = validate_frame [OF v]
  show ?thesis
  proof (cases r)
    case (Inl e)
    then show ?thesis using f1 by (simp add: update_coffee_lot_def v)
  next
    case (Inr vr)
    show ?thesis
    proof (cases "isValid vr")
      case False
      then show ?thesis using f1 by (simp add: update_coffee_lot_def v Inr)
    next
      case True
      show ?thesis
      proof (cases "parse_data_entrada d")
        case (Inl e)
        then show ?thesis using f1 True by (simp add: update_coffee_lot_def v Inr)
      next
        case pr: (Inr res)
        show ?thesis
        proof (cases res)
          case None
          then show ?thesis using f1 True by (simp add: update_coffee_lot_def v Inr pr)
        next
          case (Some d1)
          obtain w3 x where up: "upsert_registries w1 d1 = (w3, x)"
            by (cases "upsert_registries w1 d1")
          have g: "dict_get d1 ''nome_produtor'' = dict_get d ''nome_produtor''"
                  "dict_get d1 ''caminhoneiro'' = dict_get d ''caminhoneiro''"
            using parse_keeps_other [of d d1] pr Some by simp_all
          have res: "producers (fst (update_coffee_lot w i d)) = producers w3
                   \<and> drivers (fst (update_coffee_lot w i d)) = drivers w3"
          proof (cases x)
            case (Inl e)
            then show ?thesis using True up by (simp add: update_coffee_lot_def v Inr pr Some)
          next
            case xr: (Inr y)
            obtain w4 c where cn: "get_db_connection w3 = (w4, c)"
              by (cases "get_db_connection w3")
            note f4 = connection_frame [OF cn]
            define sets where "sets = map (\<lambda>c. (c, dict_get d1 c))
                                        (filter (dict_has d1) COFFEE_LOT_COLUMNS)"
            have eq: "update_coffee_lot w i d
                = (case c of
                     Inl e \<Rightarrow> (w4, Inr (500, Msg (ServerError UpdateLot)))
                   | Inr y \<Rightarrow>
                       (if sets = [] then (w4, Inr (400, Msg NoDataProvided))
                        else case update_coffee_lots (coffee_lots w4) sets i of
                          Inl e \<Rightarrow> (w4, Inr (500, Msg (ServerError UpdateLot)))
                        | Inr (lots, rowcount) \<Rightarrow>
                            (if rowcount = 0
                             then (w4\<lparr>coffee_lots := lots\<rparr>, Inr (404, Msg LotNotFound))
                             else get_coffee_lot_by_id (w4\<lparr>coffee_lots := lots\<rparr>) i)))"
              using True
              by (simp add: update_coffee_lot_def v Inr pr Some up xr cn Let_def sets_def
                       split: sum.splits)
            have gf: "producers (fst (get_coffee_lot_by_id wq i)) = producers wq
                      \<and> drivers (fst (get_coffee_lot_by_id wq i)) = drivers wq" for wq
              using get_lot_frame [of wq i "fst (get_coffee_lot_by_id wq i)"
                                     "snd (get_coffee_lot_by_id wq i)"]
              by simp
            have "producers (fst (update_coffee_lot w i d)) = producers w4
                  \<and> drivers (fst (update_coffee_lot w i d)) = drivers w4"
              unfolding eq
              by (simp add: gf split: sum.splits prod.splits)
            then show ?thesis using f4 by simp
          qed
          show ?thesis using up g f1 res by blast
        qed
      qed
    qed
  qed
qed

lemma registry_step_unchanged:
  assumes step: "(pa = producers w \<and> da = drivers w)
     \<or> (\<exists>w2 d3 w3 x. upsert_registries w2 d3 = (w3, x)
           \<and> producers w2 = producers w \<and> drivers w2 = drivers w
           \<and> dict_get d3 ''nome_produtor'' = dict_get d ''nome_produtor''
           \<and> dict_get d3 ''caminhoneiro'' = dict_get d ''caminhoneiro''
           \<and> pa = producers w3 \<and> da = drivers w3)"
  shows "(blank_name (dict_get d ''nome_produtor'') \<longrightarrow> pa = producers w)
       \<and> (blank_name (dict_get d ''caminhoneiro'') \<longrightarrow> da = drivers w)"
proof -
  consider (early) "pa = producers w \<and> da = drivers w"
    | (run) w2 d3 w3 x where "upsert_registries w2 d3 = (w3, x)"
        "producers w2 = producers w" "drivers w2 = drivers w"
        "dict_get d3 ''nome_produtor'' = dict_get d ''nome_produtor''"
        "dict_get d3 ''caminhoneiro'' = dict_get d ''caminhoneiro''"
        "pa = producers w3" "da = drivers w3"
    using step by blast
  then show ?thesis
  proof cases
    case early
    then show ?thesis by simp
  next
    case run
    from upsert_registries_frame [OF run(1)] run(2-7) show ?thesis by simp
  qed
qed

text \<open>
  C10: called with a name that is absent (None), empty or whitespace-only,
  \<^verbatim>\<open>add_producer_if_not_exists\<close> and \<^verbatim>\<open>add_driver_if_not_exists\<close> return at once, without
  an exception and with the whole state unchanged: no connection is opened and no row is
  written. So a create or an update of a lot whose producer name is blank leaves the
  producers table as it was, one whose driver name is blank leaves the drivers table as it
  was, and with both blank the registry step returns without an exception and without any
  effect.
\<close>

theorem blank_name_upsert_noop:
  "(blank_name name \<longrightarrow>
      add_producer_if_not_exists w name prop = (w, Inr ())
      \<and> add_driver_if_not_exists w name = (w, Inr ()))
   \<and> (blank_name (dict_get d ''nome_produtor'') \<longrightarrow>
        producers (fst (add_coffee_lot w d)) = producers w
        \<and> producers (fst (update_coffee_lot w lot_id d)) = producers w)
   \<and> (blank_name (dict_get d ''caminhoneiro'') \<longrightarrow>
        drivers (fst (add_coffee_lot w d)) = drivers w
        \<and> drivers (fst (update_coffee_lot w lot_id d)) = drivers w)
   \<and> (blank_name (dict_get d ''nome_produtor'') \<and> blank_name (dict_get d ''caminhoneiro'') \<longrightarrow>
        upsert_registries w d = (w, Inr ()))"
proof -
  note a = registry_step_unchanged [OF add_coffee_lot_registry_step [of w d]]
  note u = registry_step_unchanged [OF update_coffee_lot_registry_step [of w lot_id d]]
  have r: "blank_name (dict_get d ''nome_produtor'') \<and> blank_name (dict_get d ''caminhoneiro'')
           \<longrightarrow> upsert_registries w d = (w, Inr ())"
    by (simp add: upsert_registries_def Let_def add_producer_blank add_driver_blank)
  have n: "blank_name name \<longrightarrow>
      add_producer_if_not_exists w name prop = (w, Inr ())
      \<and> add_driver_if_not_exists w name = (w, Inr ())"
    by (simp add: add_producer_blank add_driver_blank)
  from a u r n show ?thesis by blast
qed

theorem blank_name_upsert_noop_witness:
  "add_producer_if_not_exists example_world (PStr ''   '') (PInt 5) = (example_world, Inr ())
   \<and> add_driver_if_not_exists example_world (PStr ''   '') = (example_world, Inr ())
   \<and> producers (fst (add_coffee_lot example_world
         [(''boca_entrada'', PInt 4), (''nome_produtor'', PStr '' ''), (''caminhoneiro'', PStr [])]))
       = []
   \<and> drivers (fst (add_coffee_lot example_world
         [(''boca_entrada'', PInt 4), (''nome_produtor'', PStr '' ''), (''caminhoneiro'', PStr [])]))
       = []"
proof -
  have b: "blank_name (PStr ''   '')" "blank_name (PStr '' '')" "blank_name (PStr [])"
    by (simp_all add: blank_name_def py_strip_def strip_with_def py_isspace_def)
  have e: "producers example_world = []" "drivers example_world = []"
    by (simp_all add: example_world_def empty_world_def)
  have g: "dict_get [(''boca_entrada'', PInt 4), (''nome_produtor'', PStr '' ''),
                     (''caminhoneiro'', PStr [])] ''nome_produtor'' = PStr '' ''"
          "dict_get [(''boca_entrada'', PInt 4), (''nome_produtor'', PStr '' ''),
                     (''caminhoneiro'', PStr [])] ''caminhoneiro'' = PStr []"
    by (simp_all add: dict_get_def)
  show ?thesis
    using blank_name_upsert_noop [of "PStr ''   ''" example_world "PInt 5"
        "[(''boca_entrada'', PInt 4), (''nome_produtor'', PStr '' ''), (''caminhoneiro'', PStr [])]"
        "''L1''"]
    unfolding g e using b by blast
qed

subsection \<open>Create handler: the 201 response\<close>

lemma dict_keys_set: "fst ` set (dict_set d k v) = insert k (fst ` set d)"
  by (simp add: dict_set_def dom_update)

lemma dict_has_keys: "dict_has d k = (k \<in> fst ` set d)"
  by (simp add: dict_has_def map_of_eq_None_iff)

lemma dict_get_default_set:
  "dict_get_default (dict_set d k v) k' dflt = (if k' = k then v else dict_get_default d k' dflt)"
  by (simp add: dict_get_default_def dict_set_def update_conv')

lemma parse_keeps_key_set:
  assumes "parse_data_entrada d = Inr (Some d1)"
  shows "fst ` set d1 = fst ` set d"
proof (cases "dict_has d ''data_entrada'' \<and> truthy (dict_get d ''data_entrada'')")
  case True
  then have k: "insert ''data_entrada'' (fst ` set d) = fst ` set d"
    by (simp add: dict_has_keys insert_absorb)
  from True assms obtain v where "d1 = dict_set d ''data_entrada'' v"
    by (auto simp: parse_data_entrada_def split: pyval.splits option.splits)
  then show ?thesis by (simp add: dict_keys_set k)
next
  case False
  then show ?thesis using assms by (auto simp: parse_data_entrada_def)
qed

lemma parse_keeps_default:
  assumes "parse_data_entrada d = Inr (Some d1)" and "k \<noteq> ''data_entrada''"
  shows "dict_get_default d1 k dflt = dict_get_default d k dflt"
  using assms
  by (auto simp: parse_data_entrada_def dict_get_default_set
           split: if_splits pyval.splits option.splits)

lemma serialize_keys: "fst ` set (serialize_coffee_lot l) = fst ` set l"
proof (cases "dict_get l ''data_entrada''")
  case (PDate dt)
  then have "dict_has l ''data_entrada''"
    using get_not_none_has [of l "''data_entrada''"] by simp
  then show ?thesis
    by (auto simp: serialize_coffee_lot_def PDate dict_keys_set dict_has_keys)
qed (simp_all add: serialize_coffee_lot_def)

lemma serialize_other:
  "k \<noteq> ''data_entrada'' \<Longrightarrow> dict_get (serialize_coffee_lot l) k = dict_get l k"
  by (cases "dict_get l ''data_entrada''") (simp_all add: serialize_coffee_lot_def dict_get_set)

text \<open>What a create request that is answered 201 has gone through.\<close>

lemma add_coffee_lot_created:
  assumes ok: "add_coffee_lot w p = (w', Inr (201, b))"
  shows "\<exists>d1 d3 lots.
           parse_data_entrada p = Inr (Some d1)
         \<and> d3 = dict_set (dict_set d1 ''id'' (PStr (uuid_src w (uuid_used w)))) ''status''
                  (dict_get_default (dict_set d1 ''id'' (PStr (uuid_src w (uuid_used w))))
                     ''status'' (PStr ''active''))
         \<and> b = Json (PDict (serialize_coffee_lot d3))
         \<and> insert_coffee_lot (coffee_lots w) (map (dict_get d3) COFFEE_LOT_COLUMNS) = Inr lots
         \<and> coffee_lots w' = lots"
proof -
  obtain w1 r where v: "validate_boca_entrada w (dict_get p ''boca_entrada'') None = (w1, r)"
    by (cases "validate_boca_entrada w (dict_get p ''boca_entrada'') None")
  note f1 = validate_frame [OF v]
  show ?thesis
  proof (cases r)
    case (Inl e)
    then show ?thesis using ok by (simp add: add_coffee_lot_def v)
  next
    case (Inr vr)
    show ?thesis
    proof (cases "isValid vr")
      case False
      then show ?thesis using ok by (simp add: add_coffee_lot_def v Inr)
    next
      case True
      show ?thesis
      proof (cases "parse_data_entrada p")
        case (Inl e)
        then show ?thesis using ok True by (simp add: add_coffee_lot_def v Inr)
      next
        case pr: (Inr res)
        show ?thesis
        proof (cases res)
          case None
          then show ?thesis using ok True by (simp add: add_coffee_lot_def v Inr pr)
        next
          case (Some d1)
          define w2 where "w2 = w1\<lparr>uuid_used := Suc (uuid_used w1)\<rparr>"
          define d2 where "d2 = dict_set d1 ''id'' (PStr (uuid_src w1 (uuid_used w1)))"
          define d3 where "d3 = dict_set d2 ''status'' (dict_get_default d2 ''status'' (PStr ''active''))"
          obtain w3 x where up: "upsert_registries w2 d3 = (w3, x)"
            by (cases "upsert_registries w2 d3")
          obtain w4 c where cn: "get_db_connection w3 = (w4, c)"
            by (cases "get_db_connection w3")
          have l4: "coffee_lots w4 = coffee_lots w"
            using connection_frame [OF cn] upsert_registries_frame [OF up] f1
            by (simp add: w2_def)
          have eq: "add_coffee_lot w p
              = (case x of
                   Inl e \<Rightarrow> (w3, Inl e)
                 | Inr y \<Rightarrow>
                     (case c of
                        Inl e \<Rightarrow> (w4, Inr (500, Msg (ServerError AddLot)))
                      | Inr z \<Rightarrow>
                          (case insert_coffee_lot (coffee_lots w4)
                                  (map (dict_get d3) COFFEE_LOT_COLUMNS) of
                             Inl e \<Rightarrow> (w4, Inr (500, Msg (ServerError AddLot)))
                           | Inr lots \<Rightarrow>
                               (w4\<lparr>coffee_lots := lots\<rparr>,
                                Inr (201, Json (PDict (serialize_coffee_lot d3)))))))"
            using True
            by (simp add: add_coffee_lot_def v Inr pr Some new_uuid_def Let_def
                  w2_def [symmetric] d2_def [symmetric] d3_def [symmetric] up cn
                  split: sum.splits)
          have d3': "d3 = dict_set (dict_set d1 ''id'' (PStr (uuid_src w (uuid_used w)))) ''status''
                  (dict_get_default (dict_set d1 ''id'' (PStr (uuid_src w (uuid_used w))))
                     ''status'' (PStr ''active''))"
            using f1 by (simp add: d3_def d2_def)
          show ?thesis
            using ok l4 d3' unfolding eq
            by (auto simp: pr Some split: sum.splits)
        qed
      qed
    qed
  qed
qed

lemma dict_get_zip_map:
  "dict_get (zip cs (map f cs)) c = (if c \<in> set cs then f c else PNone)"
  by (simp add: dict_get_def map_of_zip_map)

lemma insert_coffee_lot_row:
  assumes "insert_coffee_lot lots vals = Inr lots'"
  shows "lots' = lots @ [zip COFFEE_LOT_COLUMNS vals]
       \<and> \<not> list_ex (\<lambda>l. dict_get l ''id'' = dict_get (zip COFFEE_LOT_COLUMNS vals) ''id'') lots"
  using assms by (auto simp: insert_coffee_lot_def Let_def split: if_splits)

lemma id_status_columns:
  "''id'' \<in> set COFFEE_LOT_COLUMNS" "''status'' \<in> set COFFEE_LOT_COLUMNS"
  "''data_entrada'' \<in> set COFFEE_LOT_COLUMNS"
  by (simp_all add: COFFEE_LOT_COLUMNS_def)

text \<open>
  C7, amended: the body of a 201 answer to POST is the request object itself with the
  server-assigned fields written into it: its id is the fresh UUID (held by no earlier row),
  its status is the request's status, or \<^verbatim>\<open>active\<close> when the request has no status key, and
  every other field except the entry date is the request's own. Its field set is the
  request's field set plus id and status. One row is appended to the table, with the same id
  and status.
\<close>

theorem add_coffee_lot_response_fields:
  "add_coffee_lot_route w body = (w', Inr (201, b)) \<longrightarrow>
     (\<exists>new_lot_data d row.
         body = PDict new_lot_data \<and> b = Json (PDict d)
       \<and> fst ` set d = fst ` set new_lot_data \<union> {''id'', ''status''}
       \<and> dict_get d ''id'' = PStr (uuid_src w (uuid_used w))
       \<and> dict_get d ''status'' = dict_get_default new_lot_data ''status'' (PStr ''active'')
       \<and> (\<forall>k. k \<noteq> ''id'' \<and> k \<noteq> ''status'' \<and> k \<noteq> ''data_entrada''
              \<longrightarrow> dict_get d k = dict_get new_lot_data k)
       \<and> coffee_lots w' = coffee_lots w @ [row]
       \<and> dict_get row ''id'' = dict_get d ''id''
       \<and> dict_get row ''status'' = dict_get d ''status''
       \<and> \<not> list_ex (\<lambda>l. dict_get l ''id'' = dict_get d ''id'') (coffee_lots w))"
proof
  assume ok: "add_coffee_lot_route w body = (w', Inr (201, b))"
  then obtain p where body: "body = PDict p" and okp: "add_coffee_lot w p = (w', Inr (201, b))"
    by (cases body) (simp_all add: add_coffee_lot_route_def)
  define u where "u = PStr (uuid_src w (uuid_used w))"
  from add_coffee_lot_created [OF okp] obtain d1 d3 lots where
      pr: "parse_data_entrada p = Inr (Some d1)"
      and d3: "d3 = dict_set (dict_set d1 ''id'' u) ''status''
                  (dict_get_default (dict_set d1 ''id'' u) ''status'' (PStr ''active''))"
      and b: "b = Json (PDict (serialize_coffee_lot d3))"
      and ins: "insert_coffee_lot (coffee_lots w) (map (dict_get d3) COFFEE_LOT_COLUMNS) = Inr lots"
      and l: "coffee_lots w' = lots"
    unfolding u_def by blast
  define row where "row = zip COFFEE_LOT_COLUMNS (map (dict_get d3) COFFEE_LOT_COLUMNS)"
  have g3: "dict_get d3 ''id'' = u"
           "dict_get d3 ''status'' = dict_get_default p ''status'' (PStr ''active'')"
    using parse_keeps_default [OF pr, of "''status''"]
    by (simp_all add: d3 dict_get_set dict_get_default_set)
  have o3: "dict_get d3 k = dict_get p k"
    if "k \<noteq> ''id'' \<and> k \<noteq> ''status'' \<and> k \<noteq> ''data_entrada''" for k
    using that parse_keeps_other [OF pr, of k] by (simp add: d3 dict_get_set)
  have k3: "fst ` set d3 = fst ` set p \<union> {''id'', ''status''}"
    using parse_keeps_key_set [OF pr] by (auto simp: d3 dict_keys_set)
  have r: "dict_get row ''id'' = u" "dict_get row ''status'' = dict_get d3 ''status''"
    by (simp_all add: row_def dict_get_zip_map id_status_columns g3)
  have i: "lots = coffee_lots w @ [row]"
          "\<not> list_ex (\<lambda>l. dict_get l ''id'' = u) (coffee_lots w)"
    using insert_coffee_lot_row [OF ins] r(1) by (simp_all add: row_def)
  have "body = PDict p \<and> b = Json (PDict (serialize_coffee_lot d3))
       \<and> fst ` set (serialize_coffee_lot d3) = fst ` set p \<union> {''id'', ''status''}
       \<and> dict_get (serialize_coffee_lot d3) ''id'' = PStr (uuid_src w (uuid_used w))
       \<and> dict_get (serialize_coffee_lot d3) ''status''
           = dict_get_default p ''status'' (PStr ''active'')
       \<and> (\<forall>k. k \<noteq> ''id'' \<and> k \<noteq> ''status'' \<and> k \<noteq> ''data_entrada''
              \<longrightarrow> dict_get (serialize_coffee_lot d3) k = dict_get p k)
       \<and> coffee_lots w' = coffee_lots w @ [row]
       \<and> dict_get row ''id'' = dict_get (serialize_coffee_lot d3) ''id''
       \<and> dict_get row ''status'' = dict_get (serialize_coffee_lot d3) ''status''
       \<and> \<not> list_ex (\<lambda>l. dict_get l ''id'' = dict_get (serialize_coffee_lot d3) ''id'')
              (coffee_lots w)"
    using body b k3 g3 o3 r i l
    by (simp add: serialize_keys serialize_other u_def)
  then show "\<exists>new_lot_data d row.
         body = PDict new_lot_data \<and> b = Json (PDict d)
       \<and> fst ` set d = fst ` set new_lot_data \<union> {''id'', ''status''}
       \<and> dict_get d ''id'' = PStr (uuid_src w (uuid_used w))
       \<and> dict_get d ''status'' = dict_get_default new_lot_data ''status'' (PStr ''active'')
       \<and> (\<forall>k. k \<noteq> ''id'' \<and> k \<noteq> ''status'' \<and> k \<noteq> ''data_entrada''
              \<longrightarrow> dict_get d k = dict_get new_lot_data k)
       \<and> coffee_lots w' = coffee_lots w @ [row]
       \<and> dict_get row ''id'' = dict_get d ''id''
       \<and> dict_get row ''status'' = dict_get d ''status''
       \<and> \<not> list_ex (\<lambda>l. dict_get l ''id'' = dict_get d ''id'') (coffee_lots w)"
    by - (rule exI [of _ p], rule exI [of _ "serialize_coffee_lot d3"], rule exI [of _ row],
          assumption)
qed

text \<open>
  C7, as stated, fails: for a request with the bay number and one unknown field, the 201 body
  has four fields, the unknown one among them, and not the 23 columns.
\<close>

theorem add_coffee_lot_field_set_counterexample:
  "snd (add_coffee_lot_route empty_world
          (PDict [(''boca_entrada'', PInt 3), (''extra'', PBool True)]))
     = Inr (201, Json (PDict [(''boca_entrada'', PInt 3), (''extra'', PBool True),
                              (''id'', PStr ''u''), (''status'', PStr ''active'')]))"
  by code_simp

theorem add_coffee_lot_response_fields_witness:
  "snd (add_coffee_lot_route example_world example_create_body)
     = Inr (201, example_create_response)
   \<and> (\<exists>new_lot_data d row.
         example_create_body = PDict new_lot_data \<and> example_create_response = Json (PDict d)
       \<and> fst ` set d = fst ` set new_lot_data \<union> {''id'', ''status''}
       \<and> dict_get d ''id'' = PStr (uuid_src example_world (uuid_used example_world))
       \<and> dict_get d ''status'' = dict_get_default new_lot_data ''status'' (PStr ''active'')
       \<and> (\<forall>k. k \<noteq> ''id'' \<and> k \<noteq> ''status'' \<and> k \<noteq> ''data_entrada''
              \<longrightarrow> dict_get d k = dict_get new_lot_data k)
       \<and> coffee_lots (fst (add_coffee_lot_route example_world example_create_body))
           = coffee_lots example_world @ [row]
       \<and> dict_get row ''id'' = dict_get d ''id''
       \<and> dict_get row ''status'' = dict_get d ''status''
       \<and> \<not> list_ex (\<lambda>l. dict_get l ''id'' = dict_get d ''id'') (coffee_lots example_world))"
proof -
  have ev: "snd (add_coffee_lot_route example_world example_create_body)
              = Inr (201, example_create_response)"
    by code_simp
  have eq: "add_coffee_lot_route example_world example_create_body
              = (fst (add_coffee_lot_route example_world example_create_body),
                 Inr (201, example_create_response))"
    using ev by (simp add: prod_eq_iff)
  note c = add_coffee_lot_response_fields
             [of example_world example_create_body
                 "fst (add_coffee_lot_route example_world example_create_body)"
                 example_create_response, THEN mp, OF eq]
  from ev c show ?thesis by (rule conjI)
qed

subsection \<open>Entry dates\<close>













subsection \<open>Store errors\<close>































subsection \<open>Registry upsert: idempotence and normalization\<close>

























end
